theory Spec2Isabelle
  imports Complex_Main "HOL-Library.Multiset" "HOL-Library.Sublist"
begin

section \<open>Strings and numbers of the host language\<close>

text \<open>
  A TypeScript string is a sequence of UTF-16 code units. It is modelled as a
  \<^typ>\<open>string\<close>, the list of its code units, for the code units below 256 (ASCII and
  Latin-1): every literal of the modelled sources is ASCII. A line feed is
  \<open>CHR 0x0A\<close>, a double quote \<open>CHR 0x22\<close>, a backslash \<open>CHR 0x5C\<close>.
\<close>

abbreviation LF :: char where
  "LF \<equiv> CHR 0x0A"

text \<open>
  \<open>String.prototype.trim\<close> removes white space and line terminators from both ends.
  Among the code units below 256 these are TAB, LF, VT, FF, CR, SP and NBSP.
\<close>

definition is_js_space :: "char \<Rightarrow> bool" where
  "is_js_space c = (c = CHR 0x09 \<or> c = CHR 0x0A \<or> c = CHR 0x0B \<or> c = CHR 0x0C \<or>
                    c = CHR 0x0D \<or> c = CHR 0x20 \<or> c = CHR 0xA0)"

definition trim :: "string \<Rightarrow> string" where
  "trim s = rev (dropWhile is_js_space (rev (dropWhile is_js_space s)))"

text \<open>
  The decimal text of a non-negative integer, as a template literal prints the
  \<open>length\<close> of an array: the digits, most significant first, no leading zero.
\<close>

definition digit_char :: "nat \<Rightarrow> char" where
  "digit_char d = char_of (48 + d)"

function string_of_nat :: "nat \<Rightarrow> string" where
  "string_of_nat n =
     (if n < 10 then [digit_char n] else string_of_nat (n div 10) @ [digit_char (n mod 10)])"
  by pat_completeness auto
termination
  by (relation "measure (\<lambda>n. n)") auto

declare string_of_nat.simps [simp del]

section \<open>The finding and the reporter (utils/helpers)\<close>

text \<open>
  \<^verbatim>\<open>
  export interface Finding {
    severity: 'critical' | 'high' | 'medium' | 'low' | 'info';
    title: string;  description: string;  url: string;
    payload?: string;  evidence?: string;  cwe?: string;  owasp?: string;
    recommendation: string;
  }
  \<close>
  The union of five string literals is a datatype of five constructors; an optional
  field is an \<open>option\<close>.
\<close>

datatype severity = Critical | High | Medium | Low | Info

record finding =
  severity :: severity
  title :: string
  description :: string
  url :: string
  payload :: "string option"
  evidence :: "string option"
  cwe :: "string option"
  owasp :: "string option"
  recommendation :: string

text \<open>
  \<^verbatim>\<open>
  export class DASTReporter {
    private findings: Finding[] = [];
    addFinding(finding: Finding) { this.findings.push(finding); }
    getFindings(): Finding[] { return this.findings; }
    getFindingsBySeverity(severity) { return this.findings.filter(f => f.severity === severity); }
    hasFindings(): boolean { return this.findings.length > 0; }
    generateSummary(): string { ... }
  }
  \<close>
  The object is a record of its one field. Every method takes the object and returns its
  result together with the object after the call, so that what a method does to the
  stored array is part of its value. \<open>getFindings\<close> returns the stored array itself; the
  model returns its contents at the time of the call.
\<close>

record DASTReporter =
  findings :: "finding list"

definition new_DASTReporter :: DASTReporter where
  "new_DASTReporter = \<lparr>findings = []\<rparr>"

definition addFinding :: "finding \<Rightarrow> DASTReporter \<Rightarrow> unit \<times> DASTReporter" where
  "addFinding f r = ((), r\<lparr>findings := findings r @ [f]\<rparr>)"

definition getFindings :: "DASTReporter \<Rightarrow> finding list \<times> DASTReporter" where
  "getFindings r = (findings r, r)"

definition getFindingsBySeverity :: "severity \<Rightarrow> DASTReporter \<Rightarrow> finding list \<times> DASTReporter" where
  "getFindingsBySeverity s r = (filter (\<lambda>f. severity f = s) (findings r), r)"

definition hasFindings :: "DASTReporter \<Rightarrow> bool \<times> DASTReporter" where
  "hasFindings r = (length (findings r) > 0, r)"

text \<open>
  \<open>generateSummary\<close> asks for the five severities in turn, takes the lengths, and trims
  the template literal, which starts with a line feed and ends with a line feed and four
  spaces.
\<close>

definition generateSummary :: "DASTReporter \<Rightarrow> string \<times> DASTReporter" where
  "generateSummary r0 =
     (let (cs, r1) = getFindingsBySeverity Critical r0; critical = length cs;
          (hs, r2) = getFindingsBySeverity High r1; high = length hs;
          (ms, r3) = getFindingsBySeverity Medium r2; medium = length ms;
          (ls, r4) = getFindingsBySeverity Low r3; low = length ls;
          (is, r5) = getFindingsBySeverity Info r4; info = length is
      in (trim ([LF] @ ''DAST Scan Summary'' @ [LF] @
                ''================='' @ [LF] @
                ''Critical: '' @ string_of_nat critical @ [LF] @
                ''High:     '' @ string_of_nat high @ [LF] @
                ''Medium:   '' @ string_of_nat medium @ [LF] @
                ''Low:      '' @ string_of_nat low @ [LF] @
                ''Info:     '' @ string_of_nat info @ [LF] @
                ''Total:    '' @ string_of_nat (length (findings r5)) @ [LF] @
                ''    ''), r5))"

text \<open>
  The text the specification describes for six numbers: the heading, the five severities
  in the order critical, high, medium, low, info, and the total.
\<close>

definition summary_text :: "nat \<Rightarrow> nat \<Rightarrow> nat \<Rightarrow> nat \<Rightarrow> nat \<Rightarrow> nat \<Rightarrow> string" where
  "summary_text c h m l i t =
     ''DAST Scan Summary'' @ [LF] @
     ''================='' @ [LF] @
     ''Critical: '' @ string_of_nat c @ [LF] @
     ''High:     '' @ string_of_nat h @ [LF] @
     ''Medium:   '' @ string_of_nat m @ [LF] @
     ''Low:      '' @ string_of_nat l @ [LF] @
     ''Info:     '' @ string_of_nat i @ [LF] @
     ''Total:    '' @ string_of_nat t"

subsection \<open>A client's calls\<close>

text \<open>
  A reporter state is what a finite sequence of calls leaves behind. A call is one of the
  five methods with its argument; \<open>call\<close> performs it and \<open>calls\<close> performs a sequence
  from left to right.
\<close>

datatype reporter_call =
    AddFinding finding
  | GetFindings
  | GetFindingsBySeverity severity
  | HasFindings
  | GenerateSummary

datatype call_result =
    Returned_void
  | Returned_findings "finding list"
  | Returned_bool bool
  | Returned_string string

fun call :: "reporter_call \<Rightarrow> DASTReporter \<Rightarrow> call_result \<times> DASTReporter" where
  "call (AddFinding f) r = (case addFinding f r of (_, r') \<Rightarrow> (Returned_void, r'))"
| "call GetFindings r = (case getFindings r of (fs, r') \<Rightarrow> (Returned_findings fs, r'))"
| "call (GetFindingsBySeverity s) r =
     (case getFindingsBySeverity s r of (fs, r') \<Rightarrow> (Returned_findings fs, r'))"
| "call HasFindings r = (case hasFindings r of (b, r') \<Rightarrow> (Returned_bool b, r'))"
| "call GenerateSummary r = (case generateSummary r of (s, r') \<Rightarrow> (Returned_string s, r'))"

fun calls :: "reporter_call list \<Rightarrow> DASTReporter \<Rightarrow> DASTReporter" where
  "calls [] r = r"
| "calls (c # cs) r = calls cs (snd (call c r))"

text \<open>The findings handed to \<open>addFinding\<close> in a sequence of calls, in the order of the calls.\<close>

fun added :: "reporter_call list \<Rightarrow> finding list" where
  "added [] = []"
| "added (AddFinding f # cs) = f # added cs"
| "added (_ # cs) = added cs"

text \<open>The states a client can reach: those left by a sequence of \<open>addFinding\<close> calls on a new reporter.\<close>

definition after_adding :: "finding list \<Rightarrow> DASTReporter" where
  "after_adding fs = calls (map AddFinding fs) new_DASTReporter"

fun is_query :: "reporter_call \<Rightarrow> bool" where
  "is_query (AddFinding f) = False"
| "is_query _ = True"

section \<open>String operations the probes use\<close>

text \<open>\<open>s.startsWith(t)\<close> and \<open>s.includes(t)\<close>, here \<open>includes_js\<close>: \<open>t\<close> at the start of \<open>s\<close>, \<open>t\<close> somewhere in \<open>s\<close>.\<close>

fun startsWith :: "string \<Rightarrow> string \<Rightarrow> bool" where
  "startsWith s [] = True"
| "startsWith [] (c # t) = False"
| "startsWith (d # s) (c # t) = (d = c \<and> startsWith s t)"

fun includes_js :: "string \<Rightarrow> string \<Rightarrow> bool" where
  "includes_js [] t = startsWith [] t"
| "includes_js (d # s) t = (startsWith (d # s) t \<or> includes_js s t)"

text \<open>
  \<open>s.toLowerCase()\<close> on code units below 256: the ASCII capitals and the Latin-1
  capitals (0xC0 to 0xDE but the multiplication sign 0xD7) move up by 32.
\<close>

definition lower_char :: "char \<Rightarrow> char" where
  "lower_char c =
     (let n = (of_char c :: nat)
      in if (65 \<le> n \<and> n \<le> 90) \<or> (192 \<le> n \<and> n \<le> 222 \<and> n \<noteq> 215) then char_of (n + 32) else c)"

definition toLowerCase :: "string \<Rightarrow> string" where
  "toLowerCase s = map lower_char s"

text \<open>\<open>xs.join(sep)\<close>.\<close>

fun join :: "string \<Rightarrow> string list \<Rightarrow> string" where
  "join sep [] = []"
| "join sep [x] = x"
| "join sep (x # y # ys) = x @ sep @ join sep (y # ys)"

text \<open>
  \<open>[...new Set(xs)]\<close>: a set iterates in insertion order, so the first occurrence of each
  element stays and the later ones go.
\<close>

fun unique :: "'a list \<Rightarrow> 'a list" where
  "unique [] = []"
| "unique (x # xs) = x # unique (filter (\<lambda>y. y \<noteq> x) xs)"

text \<open>
  \<open>encodeURIComponent\<close>: letters, digits and \<open>- _ . ! ~ * ' ( )\<close> stay; every other code
  unit becomes the percent-escapes of its UTF-8 bytes, one byte below 128 and two from
  128 to 255, with capital hexadecimal digits.
\<close>

definition uri_unreserved :: "char \<Rightarrow> bool" where
  "uri_unreserved c =
     (let n = (of_char c :: nat)
      in (65 \<le> n \<and> n \<le> 90) \<or> (97 \<le> n \<and> n \<le> 122) \<or> (48 \<le> n \<and> n \<le> 57) \<or>
         c \<in> set ''-_.!~*'()'')"

definition hex_digit :: "nat \<Rightarrow> char" where
  "hex_digit d = (if d < 10 then char_of (48 + d) else char_of (55 + d))"

definition percent_byte :: "nat \<Rightarrow> string" where
  "percent_byte b = [CHR ''%'', hex_digit (b div 16), hex_digit (b mod 16)]"

definition encode_unit :: "char \<Rightarrow> string" where
  "encode_unit c =
     (let n = (of_char c :: nat)
      in if uri_unreserved c then [c]
         else if n < 128 then percent_byte n
         else percent_byte (192 + n div 64) @ percent_byte (128 + n mod 64))"

definition encodeURIComponent :: "string \<Rightarrow> string" where
  "encodeURIComponent s = concat (map encode_unit s)"

section \<open>Regular expressions of the probes\<close>

text \<open>
  The patterns the modelled probes test are sequences of literal characters, some of them
  optional (\<open>c?\<close>), with or without the \<open>i\<close> flag. A pattern keeps its source text, which
  \<open>toString\<close> prints between slashes and before the flags.
\<close>

datatype re_atom = Lit char | Opt char

record regexp =
  re_source :: string
  re_atoms :: "re_atom list"
  re_ignoreCase :: bool

text \<open>
  Under the \<open>i\<close> flag two code units match when their canonical forms are equal: the
  capital of the code unit when that is one code unit, but never an ASCII code unit for a
  non-ASCII one. Below 256 the capitals are: \<open>a\<close>--\<open>z\<close> and 0xE0--0xFE (but the division sign
  0xF7) move down by 32, 0xFF goes to U+0178, 0xB5 to U+039C, and the sharp s stays.
\<close>

definition canonicalize :: "char \<Rightarrow> nat" where
  "canonicalize c =
     (let n = (of_char c :: nat)
      in if (97 \<le> n \<and> n \<le> 122) \<or> (224 \<le> n \<and> n \<le> 254 \<and> n \<noteq> 247) then n - 32
         else if n = 255 then 376
         else if n = 181 then 924
         else n)"

definition re_char_eq :: "bool \<Rightarrow> char \<Rightarrow> char \<Rightarrow> bool" where
  "re_char_eq ic c d = (if ic then canonicalize c = canonicalize d else c = d)"

fun re_match_here :: "bool \<Rightarrow> re_atom list \<Rightarrow> string \<Rightarrow> bool" where
  "re_match_here ic [] s = True"
| "re_match_here ic (Lit c # as) [] = False"
| "re_match_here ic (Lit c # as) (d # s) = (re_char_eq ic c d \<and> re_match_here ic as s)"
| "re_match_here ic (Opt c # as) [] = re_match_here ic as []"
| "re_match_here ic (Opt c # as) (d # s) =
     ((re_char_eq ic c d \<and> re_match_here ic as s) \<or> re_match_here ic as (d # s))"

fun re_search :: "bool \<Rightarrow> re_atom list \<Rightarrow> string \<Rightarrow> bool" where
  "re_search ic as [] = re_match_here ic as []"
| "re_search ic as (d # s) = (re_match_here ic as (d # s) \<or> re_search ic as s)"

text \<open>\<open>pattern.test(body)\<close> for a pattern without the \<open>g\<close> flag, and \<open>`${pattern}`\<close>.\<close>

definition regexp_test :: "regexp \<Rightarrow> string \<Rightarrow> bool" where
  "regexp_test p body = re_search (re_ignoreCase p) (re_atoms p) body"

definition regexp_toString :: "regexp \<Rightarrow> string" where
  "regexp_toString p = ''/'' @ re_source p @ ''/'' @ (if re_ignoreCase p then ''i'' else [])"

definition literal :: "string \<Rightarrow> bool \<Rightarrow> regexp" where
  "literal s ic = \<lparr>re_source = s, re_atoms = map Lit s, re_ignoreCase = ic\<rparr>"

section \<open>Requests and responses\<close>

text \<open>
  An awaited promise is fulfilled with a value or rejected; the probes never look at the
  error they catch. A request is answered by the target, which the probes do not control:
  the target and the network are a state \<open>'w\<close>, and \<open>request.get\<close>, \<open>request.post\<close> are one
  function from the request and the state to the outcome and the next state.
\<close>

datatype 'a settled = Fulfilled 'a | Rejected

record response =
  resp_status :: nat
  resp_headers :: "string \<rightharpoonup> string"
  resp_text :: "string settled"

record http_request =
  req_method :: string
  req_url :: string
  req_headers :: "(string \<times> string) list"
  req_data :: "string option"
  req_timeout :: "nat option"

type_synonym 'w api = "http_request \<Rightarrow> 'w \<Rightarrow> response settled \<times> 'w"

definition request_get :: "'w api \<Rightarrow> string \<Rightarrow> (string \<times> string) list \<Rightarrow> nat option \<Rightarrow>
    'w \<Rightarrow> response settled \<times> 'w" where
  "request_get api u hs t w =
     api \<lparr>req_method = ''GET'', req_url = u, req_headers = hs, req_data = None, req_timeout = t\<rparr> w"

definition request_post :: "'w api \<Rightarrow> string \<Rightarrow> string \<Rightarrow> (string \<times> string) list \<Rightarrow> nat option \<Rightarrow>
    'w \<Rightarrow> response settled \<times> 'w" where
  "request_post api u d hs t w =
     api \<lparr>req_method = ''POST'', req_url = u, req_headers = hs, req_data = Some d, req_timeout = t\<rparr> w"

section \<open>The path traversal probe (tests/06-path-traversal.spec.ts)\<close>


text \<open>
  \<^verbatim>\<open>
  const sensitiveFilePatterns = [ /root:x:0:0:/, /daemon:x:1:1:/, /nobody:x:/,
    /\[boot loader\]/i, /\[operating systems\]/i, /<?xml/i, /<configuration>/i,
    /<connectionStrings>/i, /DEBUG/i, /LOG/ ];
  \<close>
  An escaped bracket is the bracket; the source text keeps the backslash. In \<open><?xml\<close> the
  \<open><\<close> is optional.
\<close>

definition sensitiveFilePatterns :: "regexp list" where
  "sensitiveFilePatterns =
     [literal ''root:x:0:0:'' False,
      literal ''daemon:x:1:1:'' False,
      literal ''nobody:x:'' False,
      \<lparr>re_source = [CHR 0x5C] @ ''[boot loader'' @ [CHR 0x5C] @ '']'',
       re_atoms = map Lit ''[boot loader]'', re_ignoreCase = True\<rparr>,
      \<lparr>re_source = [CHR 0x5C] @ ''[operating systems'' @ [CHR 0x5C] @ '']'',
       re_atoms = map Lit ''[operating systems]'', re_ignoreCase = True\<rparr>,
      \<lparr>re_source = ''<?xml'', re_atoms = Opt CHR ''<'' # map Lit ''xml'', re_ignoreCase = True\<rparr>,
      literal ''<configuration>'' True,
      literal ''<connectionStrings>'' True,
      literal ''DEBUG'' True,
      literal ''LOG'' False]"

text \<open>
  The inner loop over the patterns: the first pattern the body matches adds one finding
  and \<open>break\<close> leaves the loop.
\<close>

fun report_first_match :: "regexp list \<Rightarrow> string \<Rightarrow> string \<Rightarrow> string \<Rightarrow> DASTReporter \<Rightarrow> DASTReporter" where
  "report_first_match [] body testUrl pl reporter = reporter"
| "report_first_match (pattern # ps) body testUrl pl reporter =
     (if regexp_test pattern body
      then snd (addFinding
             \<lparr>severity = Critical,
              title = ''Path Traversal Vulnerability'',
              description = ''Sensitive file content accessible via path traversal'',
              url = testUrl,
              payload = Some pl,
              evidence = Some (''Sensitive content pattern matched: '' @ regexp_toString pattern),
              cwe = Some ''CWE-22'',
              owasp = Some ''A01:2021 - Broken Access Control'',
              recommendation =
                ''Validate file paths against a whitelist and use safe file access methods''\<rparr>
             reporter)
      else report_first_match ps body testUrl pl reporter)"

text \<open>
  One pass of the loop body for a base URL and a payload. A rejected \<open>request.get\<close> is
  caught and nothing else is done; a rejected \<open>response.text()\<close> gives the empty body.
\<close>

definition path_traversal_attempt :: "'w api \<Rightarrow> string \<Rightarrow> string \<Rightarrow> 'w \<times> DASTReporter \<Rightarrow> 'w \<times> DASTReporter" where
  "path_traversal_attempt api baseUrl pl st =
     (let (w, reporter) = st;
          testUrl = baseUrl @ encodeURIComponent pl
      in case request_get api testUrl [] (Some 10000) w of
           (Rejected, w') \<Rightarrow> (w', reporter)
         | (Fulfilled response, w') \<Rightarrow>
             (let status = resp_status response;
                  body = (case resp_text response of Fulfilled b \<Rightarrow> b | Rejected \<Rightarrow> [])
              in if status = 200 \<and> length body > 0
                 then (w', report_first_match sensitiveFilePatterns body testUrl pl reporter)
                 else (w', reporter)))"


section \<open>The CORS probe\<close>

definition testOrigins :: "string list" where
  "testOrigins = [''https://evil.com'', ''https://attacker.com'', ''https://null'', ''null'']"

definition sensitiveEndpoints :: "string list" where
  "sensitiveEndpoints = [''/'', ''/api'', ''/api/user'', ''/api/users'', ''/api/session'', ''/api/account'']"

text \<open>
  One pass of the loop body for an endpoint and an origin. The three tests on the headers
  are three separate \<open>if\<close>s, each adding its own finding. A header that is absent is
  \<open>undefined\<close>, here \<open>None\<close>, and equals no string. The evidence of the second finding
  prints \<open>origin\<close>, \<open>acao\<close> and \<open>acac\<close>; where it is built \<open>acao\<close> is \<open>origin\<close> and \<open>acac\<close>
  is \<open>true\<close>.
\<close>

definition cors_attempt :: "'w api \<Rightarrow> string \<Rightarrow> string \<Rightarrow> 'w \<times> DASTReporter \<Rightarrow> 'w \<times> DASTReporter" where
  "cors_attempt api endpoint origin st =
     (let (w, reporter) = st
      in case request_get api endpoint [(''Origin'', origin)] None w of
           (Rejected, w') \<Rightarrow> (w', reporter)
         | (Fulfilled response, w') \<Rightarrow>
             (let acao = resp_headers response ''access-control-allow-origin'';
                  acac = resp_headers response ''access-control-allow-credentials'';
                  r1 = (if acao = Some ''*''
                        then snd (addFinding
                               \<lparr>severity = High,
                                title = ''Overly Permissive CORS'',
                                description = ''Access-Control-Allow-Origin header is set to *'',
                                url = endpoint,
                                payload = None,
                                evidence = Some ''Access-Control-Allow-Origin: *'',
                                cwe = Some ''CWE-942'',
                                owasp = Some ''A01:2021 - Broken Access Control'',
                                recommendation = ''Restrict CORS to specific trusted origins''\<rparr>
                               reporter)
                        else reporter);
                  r2 = (if acao = Some origin \<and> acac = Some ''true''
                        then snd (addFinding
                               \<lparr>severity = Critical,
                                title = ''CORS Allows Arbitrary Origin with Credentials'',
                                description = ''Server reflects arbitrary origin with credentials enabled'',
                                url = endpoint,
                                payload = None,
                                evidence = Some (''Origin: '' @ origin @ '', ACAO: '' @ origin @
                                                 '', ACAC: true''),
                                cwe = Some ''CWE-942'',
                                owasp = Some ''A01:2021 - Broken Access Control'',
                                recommendation =
                                  ''Validate origin against a whitelist and avoid reflecting arbitrary origins''\<rparr>
                               r1)
                        else r1);
                  r3 = (if acao = Some ''null''
                        then snd (addFinding
                               \<lparr>severity = High,
                                title = ''CORS Allows Null Origin'',
                                description =
                                  ''Server allows null origin which can be exploited via sandboxed iframes'',
                                url = endpoint,
                                payload = None,
                                evidence = Some ''Access-Control-Allow-Origin: null'',
                                cwe = Some ''CWE-942'',
                                owasp = Some ''A01:2021 - Broken Access Control'',
                                recommendation = ''Block null origin in CORS policy''\<rparr>
                               r2)
                        else r2)
              in (w', r3)))"

definition cors_probe :: "'w api \<Rightarrow> 'w \<times> DASTReporter \<Rightarrow> 'w \<times> DASTReporter" where
  "cors_probe api =
     fold (\<lambda>endpoint. fold (\<lambda>origin. cors_attempt api endpoint origin) testOrigins)
       sensitiveEndpoints"

section \<open>The cookie probe (tests/03-security-headers.spec.ts)\<close>

text \<open>
  A cookie as the browser context reports it: the probe reads its name, its two flags and
  its \<open>sameSite\<close>, one of three strings or absent.
\<close>

datatype sameSite = SameSite_Strict | SameSite_Lax | SameSite_None

record cookie =
  cookie_name :: string
  cookie_secure :: bool
  cookie_httpOnly :: bool
  cookie_sameSite :: "sameSite option"

text \<open>
  The collected issues of one cookie, in the order of the three \<open>if\<close>s: \<open>issues.push\<close>
  appends.
\<close>

definition cookie_issues :: "string \<Rightarrow> cookie \<Rightarrow> string list" where
  "cookie_issues page_url c =
     (let issues0 = [];
          issues1 = (if \<not> cookie_secure c \<and> startsWith page_url ''https://''
                     then issues0 @ [''Missing Secure flag''] else issues0);
          issues2 = (if \<not> cookie_httpOnly c \<and>
                        (includes_js (toLowerCase (cookie_name c)) ''session'' \<or>
                         includes_js (toLowerCase (cookie_name c)) ''token'' \<or>
                         includes_js (toLowerCase (cookie_name c)) ''auth'')
                     then issues1 @ [''Missing HttpOnly flag on sensitive cookie''] else issues1);
          issues3 = (if cookie_sameSite c = None \<or> cookie_sameSite c = Some SameSite_None
                     then issues2 @ [''Missing or lax SameSite attribute''] else issues2)
      in issues3)"

text \<open>The loop body: one finding for a cookie that has an issue, none otherwise.\<close>

definition check_cookie :: "string \<Rightarrow> cookie \<Rightarrow> DASTReporter \<Rightarrow> DASTReporter" where
  "check_cookie page_url c reporter =
     (let issues = cookie_issues page_url c
      in if length issues > 0
         then snd (addFinding
                \<lparr>severity = Medium,
                 title = ''Insecure Cookie: '' @ cookie_name c,
                 description = ''Cookie has security issues: '' @ join '', '' issues,
                 url = page_url,
                 payload = None,
                 evidence = Some (join ''; '' issues),
                 cwe = Some ''CWE-614'',
                 owasp = Some ''A05:2021 - Security Misconfiguration'',
                 recommendation = ''Set Secure, HttpOnly, and SameSite=Strict/Lax flags on cookies''\<rparr>
                reporter)
         else reporter)"

text \<open>
  The test navigates to \<open>/\<close>, asks the context for its cookies and checks each. Neither
  await stands in a \<open>try\<close>: a rejected one ends the test with the reporter as it was.
  \<open>page.url()\<close> is read after the navigation; nothing is awaited inside the loop, so it is
  the same for every cookie.
\<close>

record 'w browser =
  page_goto :: "string \<Rightarrow> 'w \<Rightarrow> unit settled \<times> 'w"
  context_cookies :: "'w \<Rightarrow> cookie list settled \<times> 'w"
  page_url_of :: "'w \<Rightarrow> string"

definition check_cookie_security_flags :: "'w browser \<Rightarrow> 'w \<times> DASTReporter \<Rightarrow> unit settled \<times> 'w \<times> DASTReporter" where
  "check_cookie_security_flags b st =
     (let (w, reporter) = st
      in case page_goto b ''/'' w of
           (Rejected, w1) \<Rightarrow> (Rejected, w1, reporter)
         | (Fulfilled _, w1) \<Rightarrow>
             (case context_cookies b w1 of
                (Rejected, w2) \<Rightarrow> (Rejected, w2, reporter)
              | (Fulfilled cookies, w2) \<Rightarrow>
                  (Fulfilled (), w2, fold (check_cookie (page_url_of b w2)) cookies reporter)))"

section \<open>The authentication gate (auth.setup.ts)\<close>

text \<open>
  \<^verbatim>\<open>
  const authExpiryMs = 60 * 60 * 1000;
  setup('Verify authentication state', async () => {
    if (!existsSync(authFile)) { throw new Error('\n\nNo authentication found. ...'); }
    const stats = statSync(authFile);
    const fileAge = Date.now() - stats.mtimeMs;
    if (fileAge >= authExpiryMs) { throw new Error('\n\nAuthentication expired. ...'); }
    console.log(`... (age: ${Math.round(fileAge / 60000)} minutes)`);
  });
  \<close>
  The file system is what the gate sees of it: no file, or the file's modification time in
  milliseconds, which may have a fraction. \<open>Date.now()\<close> is a whole number of
  milliseconds. Times are exact rationals. A thrown \<open>Error\<close> is \<open>Inl\<close> of its message; a
  run that passes returns the number of minutes it prints.
\<close>

datatype js_error = Error string

definition authExpiryMs :: rat where
  "authExpiryMs = 60 * 60 * 1000"

definition Math_round :: "rat \<Rightarrow> int" where
  "Math_round x = \<lfloor>x + 1 / 2\<rfloor>"

text \<open>The two errors the gate throws, by their messages.\<close>

definition no_authentication_found :: js_error where
  "no_authentication_found =
     Error ([LF, LF] @ ''No authentication found. Run: ./scripts/run-dast.sh auth'' @ [LF])"

definition authentication_expired :: js_error where
  "authentication_expired =
     Error ([LF, LF] @ ''Authentication expired. Run: ./scripts/run-dast.sh auth'' @ [LF])"

definition auth_setup :: "rat option \<Rightarrow> int \<Rightarrow> js_error + int" where
  "auth_setup authFile now =
     (case authFile of
        None \<Rightarrow> Inl no_authentication_found
      | Some mtimeMs \<Rightarrow>
          (let fileAge = of_int now - mtimeMs
           in if fileAge \<ge> authExpiryMs
              then Inl authentication_expired
              else Inr (Math_round (fileAge / 60000))))"

text \<open>A number of minutes, in milliseconds.\<close>

definition minutes :: "rat \<Rightarrow> rat" where
  "minutes m = m * 60000"

section \<open>The file upload probe\<close>

record malicious_file =
  file_name :: string
  file_content :: string
  file_type :: string
  file_risk :: severity

definition maliciousFiles :: "malicious_file list" where
  "maliciousFiles =
     [
      \<lparr>file_name = ''shell.php'',
       file_content = ''<?php system($_GET['' @ [CHR 0x22] @ ''cmd'' @ [CHR 0x22] @ '']); ?>'',
       file_type = ''application/x-php'',
       file_risk = Critical\<rparr>,
      \<lparr>file_name = ''shell.jsp'',
       file_content = ''<% Runtime.getRuntime().exec(request.getParameter('' @ [CHR 0x22] @ ''cmd'' @ [CHR 0x22] @ '')); %>'',
       file_type = ''application/x-jsp'',
       file_risk = Critical\<rparr>,
      \<lparr>file_name = ''shell.asp'',
       file_content = ''<% eval request('' @ [CHR 0x22] @ ''cmd'' @ [CHR 0x22] @ '') %>'',
       file_type = ''application/x-asp'',
       file_risk = Critical\<rparr>,
      \<lparr>file_name = ''shell.aspx'',
       file_content = ''<%@ Page Language='' @ [CHR 0x22] @ ''C#'' @ [CHR 0x22] @ '' %><% System.Diagnostics.Process.Start(Request['' @ [CHR 0x22] @ ''cmd'' @ [CHR 0x22] @ '']); %>'',
       file_type = ''application/x-aspx'',
       file_risk = Critical\<rparr>,
      \<lparr>file_name = ''malicious.html'',
       file_content = ''<script>alert('' @ [CHR 0x22] @ ''XSS'' @ [CHR 0x22] @ '')</script>'',
       file_type = ''text/html'',
       file_risk = High\<rparr>,
      \<lparr>file_name = ''malicious.svg'',
       file_content = ''<svg xmlns='' @ [CHR 0x22] @ ''http://www.w3.org/2000/svg'' @ [CHR 0x22] @ '' onload='' @ [CHR 0x22] @ ''alert(1)'' @ [CHR 0x22] @ ''/>'',
       file_type = ''image/svg+xml'',
       file_risk = High\<rparr>,
      \<lparr>file_name = ''malicious.pdf'',
       file_content = ''%PDF-1.4'' @ [CHR 0x0A] @ ''1 0 obj'' @ [CHR 0x0A] @ ''<<'' @ [CHR 0x0A] @ ''/Type /Catalog'' @ [CHR 0x0A] @ ''/Pages 2 0 R'' @ [CHR 0x0A] @ ''/OpenAction 3 0 R'' @ [CHR 0x0A] @ ''>>'' @ [CHR 0x0A] @ ''endobj'' @ [CHR 0x0A] @ ''2 0 obj'' @ [CHR 0x0A] @ ''<<'' @ [CHR 0x0A] @ ''/Type /Pages'' @ [CHR 0x0A] @ ''/Kids []'' @ [CHR 0x0A] @ ''/Count 0'' @ [CHR 0x0A] @ ''>>'' @ [CHR 0x0A] @ ''endobj'' @ [CHR 0x0A] @ ''3 0 obj'' @ [CHR 0x0A] @ ''<<'' @ [CHR 0x0A] @ ''/S /JavaScript'' @ [CHR 0x0A] @ ''/JS (app.alert('' @ [CHR 0x22] @ ''XSS'' @ [CHR 0x22] @ ''))'' @ [CHR 0x0A] @ ''>>'' @ [CHR 0x0A] @ ''endobj'' @ [CHR 0x0A] @ ''xref'' @ [CHR 0x0A] @ ''0 4'' @ [CHR 0x0A] @ ''0000000000 65535 f'' @ [CHR 0x0A] @ ''0000000009 00000 n'' @ [CHR 0x0A] @ ''0000000058 00000 n'' @ [CHR 0x0A] @ ''0000000115 00000 n'' @ [CHR 0x0A] @ ''trailer'' @ [CHR 0x0A] @ ''<<'' @ [CHR 0x0A] @ ''/Size 4'' @ [CHR 0x0A] @ ''/Root 1 0 R'' @ [CHR 0x0A] @ ''>>'' @ [CHR 0x0A] @ ''startxref'' @ [CHR 0x0A] @ ''190'' @ [CHR 0x0A] @ ''%%EOF'',
       file_type = ''application/pdf'',
       file_risk = Medium\<rparr>,
      \<lparr>file_name = ''double_extension.php.jpg'',
       file_content = ''<?php system($_GET['' @ [CHR 0x22] @ ''cmd'' @ [CHR 0x22] @ '']); ?>'',
       file_type = ''image/jpeg'',
       file_risk = High\<rparr>,
      \<lparr>file_name = ''null_byte.php%00.jpg'',
       file_content = ''<?php echo '' @ [CHR 0x22] @ ''shell'' @ [CHR 0x22] @ ''; ?>'',
       file_type = ''image/jpeg'',
       file_risk = High\<rparr>,
      \<lparr>file_name = ''.htaccess'',
       file_content = ''AddType application/x-httpd-php .jpg'' @ [CHR 0x0A] @ ''php_flag engine on'',
       file_type = ''text/plain'',
       file_risk = Critical\<rparr>]"



text \<open>
  \<^verbatim>\<open>
  function fileUrlUrls(responseBody, filename) {
    const patterns = [ /["'](\/[^"']*uploads?\/[^"']*)["']/gi, ... files? ... attachments? ...
                       ... storage ... media ... assets ... ];
    for (const pattern of patterns) {
      while ((match = pattern.exec(responseBody)) !== null) urls.push(match[1]);
    }
    urls.push(`/uploads/${filename}`); urls.push(`/files/${filename}`);
    urls.push(`/attachments/${filename}`);
    return [...new Set(urls)];
  }
  \<close>
  Each pattern is a quote, a group, a quote; the group is a slash, characters that are not
  quotes, a key word and a slash, and again characters that are not quotes. A match that
  starts at a quote therefore takes the whole run of non-quote characters after it: the
  run must start with a slash, hold the key word after that slash, and end at a quote and
  not at the end of the text. The group is the run. The next search starts after the
  closing quote; where there is no match at a position the search moves one position on.
\<close>

definition is_quote :: "char \<Rightarrow> bool" where
  "is_quote c = (c = CHR 0x22 \<or> c = CHR 0x27)"

definition quoted_path_here :: "re_atom list \<Rightarrow> char \<Rightarrow> string \<Rightarrow> bool" where
  "quoted_path_here key c s =
     (let run = takeWhile (\<lambda>d. \<not> is_quote d) s;
          rest = dropWhile (\<lambda>d. \<not> is_quote d) s
      in is_quote c \<and> rest \<noteq> [] \<and> startsWith run ''/'' \<and> re_search True key (tl run))"

function exec_all :: "re_atom list \<Rightarrow> string \<Rightarrow> string list" where
  "exec_all key [] = []"
| "exec_all key (c # s) =
     (if quoted_path_here key c s
      then takeWhile (\<lambda>d. \<not> is_quote d) s # exec_all key (tl (dropWhile (\<lambda>d. \<not> is_quote d) s))
      else exec_all key s)"
  by pat_completeness auto
termination
proof (relation "measure (\<lambda>(key, s). length s)")
  show "wf (measure (\<lambda>(key, s). length s))" by simp
next
  fix key :: "re_atom list" and c :: char and s :: string
  have "length (tl (dropWhile (\<lambda>d. \<not> is_quote d) s)) \<le> length s"
    using length_dropWhile_le [of "\<lambda>d. \<not> is_quote d" s] by simp
  then show "((key, tl (dropWhile (\<lambda>d. \<not> is_quote d) s)), (key, c # s)) \<in> measure (\<lambda>(key, s). length s)"
    by simp
next
  fix key :: "re_atom list" and c :: char and s :: string
  show "((key, s), (key, c # s)) \<in> measure (\<lambda>(key, s). length s)"
    by simp
qed

definition url_patterns :: "re_atom list list" where
  "url_patterns =
     [map Lit ''upload'' @ [Opt CHR ''s'', Lit CHR ''/''],
      map Lit ''file'' @ [Opt CHR ''s'', Lit CHR ''/''],
      map Lit ''attachment'' @ [Opt CHR ''s'', Lit CHR ''/''],
      map Lit ''storage/'',
      map Lit ''media/'',
      map Lit ''assets/'']"

definition fileUrlUrls :: "string \<Rightarrow> string \<Rightarrow> string list" where
  "fileUrlUrls responseBody filename =
     unique (concat (map (\<lambda>key. exec_all key responseBody) url_patterns) @
             [''/uploads/'' @ filename, ''/files/'' @ filename, ''/attachments/'' @ filename])"

text \<open>
  The inner loop body, for one candidate URL of the uploaded file. It has a \<open>try\<close> of its
  own: a rejected \<open>request.get\<close> or \<open>fileResponse.text()\<close> skips this URL only.
\<close>

definition check_file_url :: "'w api \<Rightarrow> string \<Rightarrow> malicious_file \<Rightarrow> string \<Rightarrow> 'w \<times> DASTReporter \<Rightarrow> 'w \<times> DASTReporter" where
  "check_file_url api endpoint file fileUrl st =
     (let (w, reporter) = st
      in case request_get api fileUrl [] (Some 5000) w of
           (Rejected, w') \<Rightarrow> (w', reporter)
         | (Fulfilled fileResponse, w') \<Rightarrow>
             (if resp_status fileResponse = 200
              then (case resp_text fileResponse of
                      Rejected \<Rightarrow> (w', reporter)
                    | Fulfilled fileContent \<Rightarrow>
                        (if includes_js fileContent (take 30 (file_content file))
                         then (w', snd (addFinding
                                \<lparr>severity = file_risk file,
                                 title = ''Unrestricted File Upload'',
                                 description = ''Server accepts and stores executable file '' @
                                               [CHR 0x22] @ file_name file @ [CHR 0x22],
                                 url = endpoint,
                                 payload = None,
                                 evidence = Some (''File accessible at: '' @ fileUrl),
                                 cwe = Some ''CWE-434'',
                                 owasp = Some ''A01:2021 - Broken Access Control'',
                                 recommendation =
                                   ''Validate file extensions, MIME types, and content. Store uploads outside web root.''\<rparr>
                                reporter))
                         else (w', reporter)))
              else (w', reporter)))"

text \<open>
  The multipart request of one upload. The boundary takes the text of
  \<open>Math.random().toString(36)\<close> without its first two characters; the body is six lines
  joined by CR LF.
\<close>

definition boundary_of :: "string \<Rightarrow> string" where
  "boundary_of random36 = ''----WebKitFormBoundary'' @ drop 2 random36"

definition multipart_body :: "string \<Rightarrow> malicious_file \<Rightarrow> string" where
  "multipart_body boundary file =
     join [CHR 0x0D, CHR 0x0A]
       [''------'' @ boundary,
        ''Content-Disposition: form-data; name='' @ [CHR 0x22] @ ''file'' @ [CHR 0x22] @
          ''; filename='' @ [CHR 0x22] @ file_name file @ [CHR 0x22],
        ''Content-Type: '' @ file_type file,
        [],
        file_content file,
        ''------'' @ boundary @ ''--'']"

definition multipart_headers :: "string \<Rightarrow> (string \<times> string) list" where
  "multipart_headers boundary = [(''Content-Type'', ''multipart/form-data; boundary=----'' @ boundary)]"

text \<open>
  One pass of the outer loop body for an endpoint and a file. The random text comes from
  the environment (\<open>rnd\<close>). A rejected \<open>request.post\<close> or \<open>response.text()\<close> is caught by
  the outer \<open>catch\<close> before anything is reported.
\<close>

definition upload_attempt :: "'w api \<Rightarrow> ('w \<Rightarrow> string \<times> 'w) \<Rightarrow> string \<Rightarrow> malicious_file \<Rightarrow>
    'w \<times> DASTReporter \<Rightarrow> 'w \<times> DASTReporter" where
  "upload_attempt api rnd endpoint file st =
     (let (w, reporter) = st;
          (random36, w1) = rnd w;
          boundary = boundary_of random36;
          body = multipart_body boundary file
      in case request_post api endpoint body (multipart_headers boundary) (Some 15000) w1 of
           (Rejected, w2) \<Rightarrow> (w2, reporter)
         | (Fulfilled response, w2) \<Rightarrow>
             (case resp_text response of
                Rejected \<Rightarrow> (w2, reporter)
              | Fulfilled responseBody \<Rightarrow>
                  (let successIndicators =
                         [''upload successful'', ''file uploaded'', ''success'', ''200'', ''location'',
                          toLowerCase (file_name file)];
                       isSuccess = list_ex (\<lambda>indicator.
                           includes_js (toLowerCase responseBody) indicator \<or>
                           resp_status response = 201 \<or>
                           resp_status response = 200) successIndicators;
                       (w3, r1) = fold (check_file_url api endpoint file)
                                    (fileUrlUrls responseBody (file_name file)) (w2, reporter);
                       r2 = (if isSuccess \<and> (file_risk file = Critical \<or> file_risk file = High)
                             then snd (addFinding
                                    \<lparr>severity = High,
                                     title = ''Potential Unrestricted File Upload'',
                                     description = ''Server accepted potentially dangerous file '' @
                                                   [CHR 0x22] @ file_name file @ [CHR 0x22],
                                     url = endpoint,
                                     payload = None,
                                     evidence = Some (''Response status: '' @
                                                      string_of_nat (resp_status response)),
                                     cwe = Some ''CWE-434'',
                                     owasp = Some ''A01:2021 - Broken Access Control'',
                                     recommendation =
                                       ''Implement strict file type validation and content inspection''\<rparr>
                                    r1)
                             else r1)
                   in (w3, r2))))"


section \<open>Worked inputs\<close>

text \<open>A finding of a given severity and title, for the worked examples.\<close>

definition sample :: "severity \<Rightarrow> string \<Rightarrow> finding" where
  "sample s t =
     \<lparr>severity = s, title = t, description = ''d'', url = ''/'', payload = None, evidence = None,
      cwe = None, owasp = None, recommendation = ''r''\<rparr>"

text \<open>A target that answers every request with a password file, and counts the requests.\<close>

definition passwd_target :: "nat api" where
  "passwd_target rq w =
     (Fulfilled \<lparr>resp_status = 200, resp_headers = Map.empty,
                 resp_text = Fulfilled ''root:x:0:0:root:/root:/bin/bash <?xml LOG''\<rparr>, Suc w)"

text \<open>A target that allows every origin.\<close>

definition wildcard_target :: "nat api" where
  "wildcard_target rq w =
     (Fulfilled \<lparr>resp_status = 200,
                 resp_headers = [''access-control-allow-origin'' \<mapsto> ''*''],
                 resp_text = Fulfilled ''ok''\<rparr>, Suc w)"

text \<open>The cookie of the cookie scenario, and a browser on an HTTPS page that holds it.\<close>

definition session_cookie :: cookie where
  "session_cookie =
     \<lparr>cookie_name = ''session_id'', cookie_secure = False, cookie_httpOnly = False,
      cookie_sameSite = Some SameSite_None\<rparr>"

definition https_browser :: "nat browser" where
  "https_browser =
     \<lparr>page_goto = (\<lambda>u w. (Fulfilled (), Suc w)),
      context_cookies = (\<lambda>w. (Fulfilled [session_cookie], w)),
      page_url_of = (\<lambda>w. ''https://target.example/'')\<rparr>"



definition upload_only_target :: "nat api" where
  "upload_only_target rq w =
     (if req_method rq = ''POST''
      then (Fulfilled \<lparr>resp_status = 200, resp_headers = Map.empty, resp_text = Fulfilled ''ok''\<rparr>, Suc w)
      else (Rejected, Suc w))"

definition fixed_random :: "nat \<Rightarrow> string \<times> nat" where
  "fixed_random w = (''0.4fzyo82mvyr'', w)"

definition shell_php :: malicious_file where
  "shell_php = hd maliciousFiles"

section \<open>Helper lemmas\<close>

lemma generateSummary_state: "snd (generateSummary r) = r"
  by (simp add: generateSummary_def getFindingsBySeverity_def)

lemma call_query_state:
  "snd (call GetFindings r) = r"
  "snd (call (GetFindingsBySeverity s) r) = r"
  "snd (call HasFindings r) = r"
  "snd (call GenerateSummary r) = r"
proof -
  show "snd (call GetFindings r) = r"
    by (simp add: getFindings_def)
  show "snd (call (GetFindingsBySeverity s) r) = r"
    by (simp add: getFindingsBySeverity_def)
  show "snd (call HasFindings r) = r"
    by (simp add: hasFindings_def)
  show "snd (call GenerateSummary r) = r"
    using generateSummary_state [of r] by (cases "generateSummary r") simp
qed

lemma call_findings:
  "findings (snd (call c r)) = findings r @ added [c]"
proof (cases c)
  case (AddFinding f)
  then show ?thesis by (simp add: addFinding_def)
qed (simp_all only: call_query_state added.simps append_Nil2)

lemma added_append: "added (cs @ ds) = added cs @ added ds"
  by (induction cs rule: added.induct) simp_all

lemma calls_findings: "findings (calls cs r) = findings r @ added cs"
proof (induction cs arbitrary: r)
  case Nil
  then show ?case by simp
next
  case (Cons c cs)
  have "added (c # cs) = added [c] @ added cs"
    using added_append [of "[c]" cs] by simp
  then show ?case
    by (simp add: Cons.IH call_findings)
qed

lemma added_map_AddFinding: "added (map AddFinding fs) = fs"
  by (induction fs) simp_all

lemma findings_after_adding: "findings (after_adding fs) = fs"
  by (simp add: after_adding_def calls_findings added_map_AddFinding new_DASTReporter_def)

lemma every_state_reachable: "r = after_adding (findings r)"
proof -
  have "findings r = findings (after_adding (findings r))"
    by (simp add: findings_after_adding)
  then show ?thesis by simp
qed

lemma calls_queries: "list_all is_query qs \<Longrightarrow> calls qs r = r"
proof (induction qs arbitrary: r)
  case Nil
  then show ?case by simp
next
  case (Cons q qs)
  then have "is_query q" and "list_all is_query qs" by simp_all
  from \<open>is_query q\<close> have "snd (call q r) = r"
    by (cases q) (simp_all only: call_query_state is_query.simps)
  with Cons.IH [OF \<open>list_all is_query qs\<close>] show ?case by simp
qed

lemma length_added: "length (added cs) = length (filter (\<lambda>c. \<not> is_query c) cs)"
  by (induction cs rule: added.induct) simp_all

lemma added_empty_iff: "added cs = [] \<longleftrightarrow> list_all is_query cs"
  by (induction cs rule: added.induct) simp_all

lemma filter_severity_mset:
  "mset fs =
     mset (filter (\<lambda>f. severity f = Critical) fs) + mset (filter (\<lambda>f. severity f = High) fs) +
     mset (filter (\<lambda>f. severity f = Medium) fs) + mset (filter (\<lambda>f. severity f = Low) fs) +
     mset (filter (\<lambda>f. severity f = Info) fs)"
proof (induction fs)
  case Nil
  then show ?case by simp
next
  case (Cons f fs)
  then show ?case by (cases "severity f") simp_all
qed

section \<open>The reporter's views\<close>

text \<open>
  Claim C1. In every reporter state (by \<open>every_state_reachable\<close> each is the state after
  a sequence of \<open>addFinding\<close> calls) and for each of the five severities \<open>S\<close>,
  \<open>getFindingsBySeverity S\<close> returns the findings of \<open>getFindings\<close> whose severity is \<open>S\<close>,
  in their order: a subsequence in which each finding of severity \<open>S\<close> occurs as often as
  in \<open>getFindings\<close> and no other finding occurs. The five results together hold every
  finding of \<open>getFindings\<close> exactly as often as \<open>getFindings\<close> does, and two results for
  different severities share no finding.
\<close>

theorem getFindingsBySeverity_partition:
  "fst (getFindingsBySeverity S r) = filter (\<lambda>f. severity f = S) (fst (getFindings r)) \<and>
   subseq (fst (getFindingsBySeverity S r)) (fst (getFindings r)) \<and>
   (\<forall>f. count (mset (fst (getFindingsBySeverity S r))) f =
        (if severity f = S then count (mset (fst (getFindings r))) f else 0)) \<and>
   mset (fst (getFindings r)) =
     mset (fst (getFindingsBySeverity Critical r)) + mset (fst (getFindingsBySeverity High r)) +
     mset (fst (getFindingsBySeverity Medium r)) + mset (fst (getFindingsBySeverity Low r)) +
     mset (fst (getFindingsBySeverity Info r)) \<and>
   (\<forall>T. T \<noteq> S \<longrightarrow>
      set (fst (getFindingsBySeverity S r)) \<inter> set (fst (getFindingsBySeverity T r)) = {})"
proof -
  have a: "fst (getFindingsBySeverity S r) = filter (\<lambda>f. severity f = S) (fst (getFindings r))"
    by (simp add: getFindingsBySeverity_def getFindings_def)
  have b: "subseq (fst (getFindingsBySeverity S r)) (fst (getFindings r))"
    unfolding a by (rule subseq_filter_left)
  have c: "\<forall>f. count (mset (fst (getFindingsBySeverity S r))) f =
        (if severity f = S then count (mset (fst (getFindings r))) f else 0)"
    unfolding a by simp
  have d: "mset (fst (getFindings r)) =
     mset (fst (getFindingsBySeverity Critical r)) + mset (fst (getFindingsBySeverity High r)) +
     mset (fst (getFindingsBySeverity Medium r)) + mset (fst (getFindingsBySeverity Low r)) +
     mset (fst (getFindingsBySeverity Info r))"
    using filter_severity_mset [of "findings r"]
    by (simp add: getFindingsBySeverity_def getFindings_def)
  have e: "\<forall>T. T \<noteq> S \<longrightarrow>
      set (fst (getFindingsBySeverity S r)) \<inter> set (fst (getFindingsBySeverity T r)) = {}"
    by (auto simp: getFindingsBySeverity_def)
  from a b c d e show ?thesis by blast
qed

theorem getFindingsBySeverity_partition_witness:
  "fst (getFindingsBySeverity High
      (after_adding [sample High ''a'', sample Low ''b'', sample High ''a'', sample High ''c''])) =
     [sample High ''a'', sample High ''a'', sample High ''c''] \<and>
   set (fst (getFindingsBySeverity High
      (after_adding [sample High ''a'', sample Low ''b'', sample High ''a'', sample High ''c'']))) \<inter>
   set (fst (getFindingsBySeverity Low
      (after_adding [sample High ''a'', sample Low ''b'', sample High ''a'', sample High ''c'']))) = {}"
proof -
  let ?r = "after_adding [sample High ''a'', sample Low ''b'', sample High ''a'', sample High ''c'']"
  have "fst (getFindingsBySeverity High ?r) = filter (\<lambda>f. severity f = High) (fst (getFindings ?r))"
    using getFindingsBySeverity_partition [of High ?r] by (rule conjunct1)
  then show ?thesis
    by (simp add: getFindings_def getFindingsBySeverity_def findings_after_adding sample_def)
qed

text \<open>
  Claim C7. \<open>addFinding f\<close> leaves \<open>getFindings\<close> as it was with \<open>f\<close> appended at the end,
  whatever \<open>f\<close> is; added twice, the same finding is stored twice. No call of any method
  removes or moves an entry: the findings before a call are a prefix of the findings after
  it. After any sequence of calls on a new reporter the findings are the findings handed
  to \<open>addFinding\<close>, in the order of the calls, and their number is the number of
  \<open>addFinding\<close> calls.
\<close>

theorem addFinding_appends:
  "fst (getFindings (snd (addFinding f r))) = fst (getFindings r) @ [f] \<and>
   fst (getFindings (snd (addFinding f (snd (addFinding f r))))) = fst (getFindings r) @ [f, f] \<and>
   prefix (fst (getFindings r)) (fst (getFindings (snd (call c r)))) \<and>
   fst (getFindings (calls cs new_DASTReporter)) = added cs \<and>
   length (fst (getFindings (calls cs new_DASTReporter))) = length (filter (\<lambda>c. \<not> is_query c) cs)"
proof -
  have a: "fst (getFindings (snd (addFinding f r))) = fst (getFindings r) @ [f]"
    by (simp add: getFindings_def addFinding_def)
  have b: "fst (getFindings (snd (addFinding f (snd (addFinding f r))))) = fst (getFindings r) @ [f, f]"
    by (simp add: getFindings_def addFinding_def)
  have c: "prefix (fst (getFindings r)) (fst (getFindings (snd (call c r))))"
    by (simp add: getFindings_def call_findings del: added.simps)
  have d: "fst (getFindings (calls cs new_DASTReporter)) = added cs"
    by (simp add: getFindings_def calls_findings new_DASTReporter_def)
  have e: "length (fst (getFindings (calls cs new_DASTReporter))) = length (filter (\<lambda>c. \<not> is_query c) cs)"
    unfolding d by (rule length_added)
  from a b c d e show ?thesis by blast
qed

theorem addFinding_appends_witness:
  "fst (getFindings (snd (addFinding (sample High ''a'') (after_adding [sample High ''a''])))) =
     [sample High ''a'', sample High ''a''] \<and>
   length (fst (getFindings (calls [AddFinding (sample Low ''b''), GenerateSummary, AddFinding (sample Low ''b'')]
     new_DASTReporter))) = 2"
  using addFinding_appends [of "sample High ''a''" "after_adding [sample High ''a'']" GetFindings
      "[AddFinding (sample Low ''b''), GenerateSummary, AddFinding (sample Low ''b'')]"]
  by (simp add: getFindings_def findings_after_adding)

text \<open>
  Claim C9. \<open>hasFindings\<close> is true exactly when \<open>getFindings\<close> has a length above zero;
  after a sequence of calls on a new reporter, exactly when one of the calls was an
  \<open>addFinding\<close>; and it is false after no call at all.
\<close>

theorem hasFindings_iff:
  "fst (hasFindings r) = (length (fst (getFindings r)) > 0) \<and>
   fst (hasFindings (calls cs new_DASTReporter)) = (\<exists>c \<in> set cs. \<not> is_query c) \<and>
   \<not> fst (hasFindings (calls [] new_DASTReporter))"
proof -
  have a: "fst (hasFindings r) = (length (fst (getFindings r)) > 0)"
    by (simp add: hasFindings_def getFindings_def)
  have "fst (hasFindings (calls cs new_DASTReporter)) = (added cs \<noteq> [])"
    by (simp add: hasFindings_def calls_findings new_DASTReporter_def)
  also have "\<dots> = (\<exists>c \<in> set cs. \<not> is_query c)"
    by (simp add: added_empty_iff list_all_iff)
  finally have b: "fst (hasFindings (calls cs new_DASTReporter)) = (\<exists>c \<in> set cs. \<not> is_query c)" .
  have c: "\<not> fst (hasFindings (calls [] new_DASTReporter))"
    by (simp add: hasFindings_def new_DASTReporter_def)
  from a b c show ?thesis by blast
qed

theorem hasFindings_iff_witness:
  "fst (hasFindings (calls [GetFindings, AddFinding (sample Info ''a'')] new_DASTReporter)) \<and>
   \<not> fst (hasFindings (calls [GetFindings, HasFindings] new_DASTReporter))"
  using hasFindings_iff [of new_DASTReporter "[GetFindings, AddFinding (sample Info ''a'')]"]
    hasFindings_iff [of new_DASTReporter "[GetFindings, HasFindings]"]
  by simp

text \<open>
  Claim C10. The four queries leave the reporter as it was: the state after
  \<open>getFindings\<close>, \<open>getFindingsBySeverity\<close>, \<open>hasFindings\<close> or \<open>generateSummary\<close> is the
  state before. \<open>getFindings\<close> called twice in a row returns the same sequence, and so
  does \<open>getFindings\<close> after any sequence of queries.
\<close>

theorem queries_keep_findings:
  "snd (getFindings r) = r \<and> snd (getFindingsBySeverity S r) = r \<and>
   snd (hasFindings r) = r \<and> snd (generateSummary r) = r \<and>
   fst (getFindings (snd (getFindings r))) = fst (getFindings r) \<and>
   (is_query q \<longrightarrow> snd (call q r) = r) \<and>
   (list_all is_query qs \<longrightarrow> fst (getFindings (calls qs r)) = fst (getFindings r))"
proof -
  have a: "snd (getFindings r) = r" "snd (getFindingsBySeverity S r) = r" "snd (hasFindings r) = r"
    by (simp_all add: getFindings_def getFindingsBySeverity_def hasFindings_def)
  have b: "snd (generateSummary r) = r"
    by (rule generateSummary_state)
  have c: "fst (getFindings (snd (getFindings r))) = fst (getFindings r)"
    by (simp add: getFindings_def)
  have d: "is_query q \<longrightarrow> snd (call q r) = r"
    using calls_queries [of "[q]" r] by simp
  have e: "list_all is_query qs \<longrightarrow> fst (getFindings (calls qs r)) = fst (getFindings r)"
    by (simp add: calls_queries)
  from a b c d e show ?thesis by blast
qed

theorem queries_keep_findings_witness:
  "snd (call GenerateSummary (after_adding [sample High ''a''])) = after_adding [sample High ''a''] \<and>
   fst (getFindings (calls [GetFindings, HasFindings, GetFindingsBySeverity Low, GenerateSummary]
     (after_adding [sample High ''a'']))) = [sample High ''a'']"
  using queries_keep_findings [of "after_adding [sample High ''a'']" Low GenerateSummary
      "[GetFindings, HasFindings, GetFindingsBySeverity Low, GenerateSummary]"]
  by (simp add: getFindings_def findings_after_adding)

lemma is_js_space_code: "is_js_space c \<Longrightarrow> of_char c \<in> {9, 10, 11, 12, 13, 32, 160 :: nat}"
  unfolding is_js_space_def by auto

lemma digit_not_space: "d < 10 \<Longrightarrow> \<not> is_js_space (digit_char d)"
proof
  assume d: "d < 10" and s: "is_js_space (digit_char d)"
  have "of_char (digit_char d) = (48 + d :: nat)"
    using d by (simp add: digit_char_def)
  with is_js_space_code [OF s] d show False by auto
qed

lemma string_of_nat_last: "string_of_nat n \<noteq> [] \<and> \<not> is_js_space (last (string_of_nat n))"
proof (cases "n < 10")
  case True
  then show ?thesis by (simp add: string_of_nat.simps [of n] digit_not_space)
next
  case False
  have "n mod 10 < 10" by simp
  with False show ?thesis by (simp add: string_of_nat.simps [of n] digit_not_space)
qed

lemma trim_core:
  assumes "list_all is_js_space pre" and "list_all is_js_space post"
    and "core \<noteq> []" and "\<not> is_js_space (hd core)" and "\<not> is_js_space (last core)"
  shows "trim (pre @ core @ post) = core"
proof -
  from assms(1,3,4) have "dropWhile is_js_space (pre @ core @ post) = core @ post"
    by (cases core) (simp_all add: dropWhile_append list_all_iff)
  moreover from assms(2,3,5) have "dropWhile is_js_space (rev post @ rev core) = rev core"
    by (cases core rule: rev_cases) (simp_all add: dropWhile_append list_all_iff)
  ultimately show ?thesis by (simp add: trim_def)
qed

lemma trim_template:
  "trim ([LF] @ ''DAST Scan Summary'' @ [LF] @
                ''================='' @ [LF] @
                ''Critical: '' @ string_of_nat c @ [LF] @
                ''High:     '' @ string_of_nat h @ [LF] @
                ''Medium:   '' @ string_of_nat m @ [LF] @
                ''Low:      '' @ string_of_nat l @ [LF] @
                ''Info:     '' @ string_of_nat i @ [LF] @
                ''Total:    '' @ string_of_nat t @ [LF] @
                ''    '') = summary_text c h m l i t"
proof -
  have pre: "list_all is_js_space [LF]" and post: "list_all is_js_space ([LF] @ ''    '')"
    by (simp_all add: is_js_space_def)
  have ne: "summary_text c h m l i t \<noteq> []" and hd: "\<not> is_js_space (hd (summary_text c h m l i t))"
    by (simp_all add: summary_text_def is_js_space_def)
  have "last (summary_text c h m l i t) = last (string_of_nat t)"
    using string_of_nat_last [of t] by (simp add: summary_text_def)
  then have last: "\<not> is_js_space (last (summary_text c h m l i t))"
    using string_of_nat_last [of t] by simp
  have "trim ([LF] @ summary_text c h m l i t @ ([LF] @ ''    '')) = summary_text c h m l i t"
    by (rule trim_core [OF pre post ne hd last])
  then show ?thesis by (simp add: summary_text_def)
qed

lemma filter_severity_length:
  "length fs =
     length (filter (\<lambda>f. severity f = Critical) fs) + length (filter (\<lambda>f. severity f = High) fs) +
     length (filter (\<lambda>f. severity f = Medium) fs) + length (filter (\<lambda>f. severity f = Low) fs) +
     length (filter (\<lambda>f. severity f = Info) fs)"
proof (induction fs)
  case Nil
  then show ?case by simp
next
  case (Cons f fs)
  then show ?case by (cases "severity f") simp_all
qed

lemma length_findings_sum:
  "length (findings r) =
     length (fst (getFindingsBySeverity Critical r)) + length (fst (getFindingsBySeverity High r)) +
     length (fst (getFindingsBySeverity Medium r)) + length (fst (getFindingsBySeverity Low r)) +
     length (fst (getFindingsBySeverity Info r))"
  using filter_severity_length [of "findings r"] by (simp add: getFindingsBySeverity_def)

lemma generateSummary_text:
  "fst (generateSummary r) =
     summary_text (length (fst (getFindingsBySeverity Critical r)))
       (length (fst (getFindingsBySeverity High r)))
       (length (fst (getFindingsBySeverity Medium r)))
       (length (fst (getFindingsBySeverity Low r)))
       (length (fst (getFindingsBySeverity Info r)))
       (length (findings r))"
  by (simp only: generateSummary_def getFindingsBySeverity_def Let_def prod.case fst_conv trim_template)

text \<open>
  Claim C2. In every reporter state the summary is the heading and six lines, in this
  order: the numbers of critical, high, medium, low and info findings, each the length of
  \<open>getFindingsBySeverity\<close> for that severity, and the total, the length of
  \<open>getFindings\<close>; the reporter is unchanged. The text holds nothing else of the findings:
  two reporters with the same five counts have the same summary.
\<close>

theorem generateSummary_counts:
  "generateSummary r =
     (''DAST Scan Summary'' @ [LF] @
      ''================='' @ [LF] @
      ''Critical: '' @ string_of_nat (length (fst (getFindingsBySeverity Critical r))) @ [LF] @
      ''High:     '' @ string_of_nat (length (fst (getFindingsBySeverity High r))) @ [LF] @
      ''Medium:   '' @ string_of_nat (length (fst (getFindingsBySeverity Medium r))) @ [LF] @
      ''Low:      '' @ string_of_nat (length (fst (getFindingsBySeverity Low r))) @ [LF] @
      ''Info:     '' @ string_of_nat (length (fst (getFindingsBySeverity Info r))) @ [LF] @
      ''Total:    '' @ string_of_nat (length (fst (getFindings r))), r) \<and>
   (\<forall>r'. (\<forall>S. length (fst (getFindingsBySeverity S r')) = length (fst (getFindingsBySeverity S r))) \<longrightarrow>
         fst (generateSummary r') = fst (generateSummary r))"
proof -
  have a: "generateSummary r =
     (''DAST Scan Summary'' @ [LF] @
      ''================='' @ [LF] @
      ''Critical: '' @ string_of_nat (length (fst (getFindingsBySeverity Critical r))) @ [LF] @
      ''High:     '' @ string_of_nat (length (fst (getFindingsBySeverity High r))) @ [LF] @
      ''Medium:   '' @ string_of_nat (length (fst (getFindingsBySeverity Medium r))) @ [LF] @
      ''Low:      '' @ string_of_nat (length (fst (getFindingsBySeverity Low r))) @ [LF] @
      ''Info:     '' @ string_of_nat (length (fst (getFindingsBySeverity Info r))) @ [LF] @
      ''Total:    '' @ string_of_nat (length (fst (getFindings r))), r)"
    using generateSummary_text [of r] generateSummary_state [of r]
    by (cases "generateSummary r") (simp add: summary_text_def getFindings_def)
  have b: "fst (generateSummary r') = fst (generateSummary r)"
    if "\<forall>S. length (fst (getFindingsBySeverity S r')) = length (fst (getFindingsBySeverity S r))" for r'
  proof -
    from that have "length (findings r') = length (findings r)"
      by (simp add: length_findings_sum)
    with that show ?thesis by (simp add: generateSummary_text)
  qed
  from a b show ?thesis by blast
qed

theorem generateSummary_counts_witness:
  "fst (generateSummary (after_adding [sample High ''a'', sample Low ''b'', sample High ''a'', sample Critical ''c''])) =
     ''DAST Scan Summary'' @ [LF] @
     ''================='' @ [LF] @
     ''Critical: 1'' @ [LF] @
     ''High:     2'' @ [LF] @
     ''Medium:   0'' @ [LF] @
     ''Low:      1'' @ [LF] @
     ''Info:     0'' @ [LF] @
     ''Total:    4''"
proof -
  let ?r = "after_adding [sample High ''a'', sample Low ''b'', sample High ''a'', sample Critical ''c'']"
  have n: "string_of_nat 0 = ''0''" "string_of_nat 1 = ''1''" "string_of_nat 2 = ''2''" "string_of_nat 4 = ''4''"
    by code_simp+
  have "length (fst (getFindingsBySeverity Critical ?r)) = 1"
    "length (fst (getFindingsBySeverity High ?r)) = 2"
    "length (fst (getFindingsBySeverity Medium ?r)) = 0"
    "length (fst (getFindingsBySeverity Low ?r)) = 1"
    "length (fst (getFindingsBySeverity Info ?r)) = 0"
    "length (fst (getFindings ?r)) = 4"
    by (simp_all add: getFindingsBySeverity_def getFindings_def findings_after_adding sample_def)
  with generateSummary_counts [of ?r] n show ?thesis
    by simp
qed

lemma string_of_nat_value:
  "foldl (\<lambda>a c. 10 * a + (of_char c - 48)) 0 (string_of_nat n) = n"
proof (induction n rule: string_of_nat.induct)
  case (1 n)
  show ?case
  proof (cases "n < 10")
    case True
    then show ?thesis by (simp add: string_of_nat.simps [of n] digit_char_def)
  next
    case False
    have "n mod 10 < 10" by simp
    then have "(of_char (digit_char (n mod 10)) :: nat) = 48 + n mod 10"
      by (simp add: digit_char_def)
    with False "1.IH" show ?thesis
      by (simp add: string_of_nat.simps [of n])
  qed
qed

text \<open>
  Claim C3. The gate has three outcomes. Without the file it throws the error "No
  authentication found". With the file, an age (now minus modification time) below 60
  minutes passes, and an age of 60 minutes or more throws the error "Authentication
  expired", a different error. At 59 minutes it passes, at 61 and at exactly 60 minutes it
  throws the second error.
\<close>

theorem auth_setup_outcomes:
  "auth_setup None now = Inl no_authentication_found \<and>
   (of_int now - mtimeMs < minutes 60 \<longrightarrow>
      auth_setup (Some mtimeMs) now = Inr (Math_round ((of_int now - mtimeMs) / 60000))) \<and>
   (of_int now - mtimeMs \<ge> minutes 60 \<longrightarrow>
      auth_setup (Some mtimeMs) now = Inl authentication_expired) \<and>
   auth_setup (Some (of_int now - minutes 59)) now = Inr 59 \<and>
   auth_setup (Some (of_int now - minutes 61)) now = Inl authentication_expired \<and>
   auth_setup (Some (of_int now - minutes 60)) now = Inl authentication_expired \<and>
   no_authentication_found \<noteq> authentication_expired"
proof -
  have w: "minutes 60 = authExpiryMs"
    by (simp add: minutes_def authExpiryMs_def)
  have a: "auth_setup None now = Inl no_authentication_found"
    by (simp add: auth_setup_def)
  have b: "of_int now - mtimeMs < minutes 60 \<longrightarrow>
      auth_setup (Some mtimeMs) now = Inr (Math_round ((of_int now - mtimeMs) / 60000))"
    by (simp add: auth_setup_def w)
  have c: "of_int now - mtimeMs \<ge> minutes 60 \<longrightarrow>
      auth_setup (Some mtimeMs) now = Inl authentication_expired"
    by (simp add: auth_setup_def w)
  have d: "auth_setup (Some (of_int now - minutes 59)) now = Inr 59"
    by (simp add: auth_setup_def minutes_def authExpiryMs_def Math_round_def floor_eq_iff)
  have e: "auth_setup (Some (of_int now - minutes 61)) now = Inl authentication_expired"
    by (simp add: auth_setup_def minutes_def authExpiryMs_def)
  have f: "auth_setup (Some (of_int now - minutes 60)) now = Inl authentication_expired"
    by (simp add: auth_setup_def minutes_def authExpiryMs_def)
  have g: "no_authentication_found \<noteq> authentication_expired"
    by (simp add: no_authentication_found_def authentication_expired_def)
  from a b c d e f g show ?thesis by blast
qed

theorem auth_setup_outcomes_witness:
  "auth_setup (Some 1700000000000) 1700003599999 = Inr 60 \<and>
   auth_setup (Some (1700000000000 + 1 / 2)) 1700003600000 = Inr 60 \<and>
   auth_setup (Some 1700000000000) 1700003600000 = Inl authentication_expired"
proof -
  have "minutes 60 = 3600000" by (simp add: minutes_def)
  then show ?thesis
    using auth_setup_outcomes [of 1700003599999 1700000000000]
      auth_setup_outcomes [of 1700003600000 "1700000000000 + 1 / 2"]
      auth_setup_outcomes [of 1700003600000 1700000000000]
    by (simp add: Math_round_def floor_eq_iff)
qed

lemma re_match_here_literal: "re_match_here False (map Lit t) (t @ post)"
  by (induction t) (simp_all add: re_char_eq_def)

lemma re_search_here: "re_match_here ic as s \<Longrightarrow> re_search ic as s"
  by (cases s) simp_all

lemma re_search_literal: "re_search False (map Lit t) (pre @ t @ post)"
proof (induction pre)
  case Nil
  show ?case using re_search_here [OF re_match_here_literal [of t post]] by simp
next
  case (Cons c pre)
  then show ?case by simp
qed

lemma regexp_test_literal: "regexp_test (literal t False) (pre @ t @ post)"
  by (simp add: regexp_test_def literal_def re_search_literal)

lemma report_first_match_length:
  "length (findings (report_first_match ps body testUrl pl reporter)) \<le> Suc (length (findings reporter))"
  by (induction ps) (simp_all add: addFinding_def)

lemma report_first_match_prefix:
  "prefix (findings reporter) (findings (report_first_match ps body testUrl pl reporter))"
  by (induction ps) (simp_all add: addFinding_def)

text \<open>
  Claim C4. When the request for the test URL (the base URL followed by the encoded
  payload) is answered with status 200 and a body that contains \<open>root:x:0:0:\<close>, the
  attempt appends exactly one finding to the reporter, whatever else the body matches:
  severity critical, CWE-22, and the test URL as its \<open>url\<close>.
\<close>

theorem path_traversal_passwd_finding:
  assumes "request_get api (baseUrl @ encodeURIComponent pl) [] (Some 10000) w = (Fulfilled response, w')"
    and "resp_status response = 200"
    and "resp_text response = Fulfilled (pre @ ''root:x:0:0:'' @ post)"
  shows "path_traversal_attempt api baseUrl pl (w, reporter) =
     (w', reporter\<lparr>findings := findings reporter @
        [\<lparr>severity = Critical,
          title = ''Path Traversal Vulnerability'',
          description = ''Sensitive file content accessible via path traversal'',
          url = baseUrl @ encodeURIComponent pl,
          payload = Some pl,
          evidence = Some ''Sensitive content pattern matched: /root:x:0:0:/'',
          cwe = Some ''CWE-22'',
          owasp = Some ''A01:2021 - Broken Access Control'',
          recommendation = ''Validate file paths against a whitelist and use safe file access methods''\<rparr>]\<rparr>)"
proof -
  let ?body = "pre @ ''root:x:0:0:'' @ post"
  have t: "regexp_test (literal ''root:x:0:0:'' False) ?body"
    by (rule regexp_test_literal)
  have s: "regexp_toString (literal ''root:x:0:0:'' False) = ''/root:x:0:0:/''"
    by (simp add: regexp_toString_def literal_def)
  have "sensitiveFilePatterns = literal ''root:x:0:0:'' False # tl sensitiveFilePatterns"
    by (simp add: sensitiveFilePatterns_def)
  then have "report_first_match sensitiveFilePatterns ?body (baseUrl @ encodeURIComponent pl) pl reporter =
      report_first_match (literal ''root:x:0:0:'' False # tl sensitiveFilePatterns) ?body
        (baseUrl @ encodeURIComponent pl) pl reporter"
    by simp
  also have "\<dots> = reporter\<lparr>findings := findings reporter @
        [\<lparr>severity = Critical,
          title = ''Path Traversal Vulnerability'',
          description = ''Sensitive file content accessible via path traversal'',
          url = baseUrl @ encodeURIComponent pl,
          payload = Some pl,
          evidence = Some ''Sensitive content pattern matched: /root:x:0:0:/'',
          cwe = Some ''CWE-22'',
          owasp = Some ''A01:2021 - Broken Access Control'',
          recommendation = ''Validate file paths against a whitelist and use safe file access methods''\<rparr>]\<rparr>"
    using t s by (simp add: addFinding_def)
  finally have r: "report_first_match sensitiveFilePatterns ?body (baseUrl @ encodeURIComponent pl) pl reporter =
      reporter\<lparr>findings := findings reporter @
        [\<lparr>severity = Critical,
          title = ''Path Traversal Vulnerability'',
          description = ''Sensitive file content accessible via path traversal'',
          url = baseUrl @ encodeURIComponent pl,
          payload = Some pl,
          evidence = Some ''Sensitive content pattern matched: /root:x:0:0:/'',
          cwe = Some ''CWE-22'',
          owasp = Some ''A01:2021 - Broken Access Control'',
          recommendation = ''Validate file paths against a whitelist and use safe file access methods''\<rparr>]\<rparr>" .
  show ?thesis
    unfolding path_traversal_attempt_def using assms r by simp
qed

theorem path_traversal_passwd_finding_witness:
  "path_traversal_attempt passwd_target ''/?file='' ''../../etc/passwd'' (0, new_DASTReporter) =
     (1, \<lparr>findings =
        [\<lparr>severity = Critical,
          title = ''Path Traversal Vulnerability'',
          description = ''Sensitive file content accessible via path traversal'',
          url = ''/?file=..%2F..%2Fetc%2Fpasswd'',
          payload = Some ''../../etc/passwd'',
          evidence = Some ''Sensitive content pattern matched: /root:x:0:0:/'',
          cwe = Some ''CWE-22'',
          owasp = Some ''A01:2021 - Broken Access Control'',
          recommendation = ''Validate file paths against a whitelist and use safe file access methods''\<rparr>]\<rparr>)"
proof -
  let ?response = "\<lparr>resp_status = 200, resp_headers = Map.empty,
                 resp_text = Fulfilled ''root:x:0:0:root:/root:/bin/bash <?xml LOG''\<rparr>"
  have e: "encodeURIComponent ''../../etc/passwd'' = ''..%2F..%2Fetc%2Fpasswd''"
    by code_simp
  have g: "request_get passwd_target (''/?file='' @ encodeURIComponent ''../../etc/passwd'') [] (Some 10000) 0 =
      (Fulfilled ?response, 1)"
    by (simp add: request_get_def passwd_target_def)
  have s: "resp_status ?response = 200" by simp
  have b: "resp_text ?response = Fulfilled ([] @ ''root:x:0:0:'' @ ''root:/root:/bin/bash <?xml LOG'')"
    by simp
  show ?thesis
    using path_traversal_passwd_finding [OF g s b, of new_DASTReporter] e
    by (simp add: new_DASTReporter_def)
qed

text \<open>
  Claim C5. For each of the tested origins and any endpoint, when the response's
  \<open>access-control-allow-origin\<close> header is \<open>*\<close>, the attempt appends exactly one finding:
  severity high, title "Overly Permissive CORS". Only the \<open>url\<close> of the finding depends on
  the endpoint.
\<close>

theorem cors_wildcard_finding:
  assumes "origin \<in> set testOrigins"
    and "request_get api endpoint [(''Origin'', origin)] None w = (Fulfilled response, w')"
    and "resp_headers response ''access-control-allow-origin'' = Some ''*''"
  shows "cors_attempt api endpoint origin (w, reporter) =
     (w', reporter\<lparr>findings := findings reporter @
        [\<lparr>severity = High,
          title = ''Overly Permissive CORS'',
          description = ''Access-Control-Allow-Origin header is set to *'',
          url = endpoint,
          payload = None,
          evidence = Some ''Access-Control-Allow-Origin: *'',
          cwe = Some ''CWE-942'',
          owasp = Some ''A01:2021 - Broken Access Control'',
          recommendation = ''Restrict CORS to specific trusted origins''\<rparr>]\<rparr>)"
proof -
  from assms(1) have "origin \<noteq> ''*''"
    by (auto simp: testOrigins_def)
  then have "Some ''*'' \<noteq> Some origin" by simp
  with assms(2,3) show ?thesis
    unfolding cors_attempt_def by (simp add: addFinding_def)
qed

theorem cors_wildcard_finding_witness:
  "cors_attempt wildcard_target ''/api/user'' ''https://evil.com'' (0, new_DASTReporter) =
     (1, \<lparr>findings =
        [\<lparr>severity = High,
          title = ''Overly Permissive CORS'',
          description = ''Access-Control-Allow-Origin header is set to *'',
          url = ''/api/user'',
          payload = None,
          evidence = Some ''Access-Control-Allow-Origin: *'',
          cwe = Some ''CWE-942'',
          owasp = Some ''A01:2021 - Broken Access Control'',
          recommendation = ''Restrict CORS to specific trusted origins''\<rparr>]\<rparr>)"
proof -
  let ?response = "\<lparr>resp_status = 200,
                 resp_headers = [''access-control-allow-origin'' \<mapsto> ''*''],
                 resp_text = Fulfilled ''ok''\<rparr>"
  have o: "''https://evil.com'' \<in> set testOrigins"
    by (simp add: testOrigins_def)
  have g: "request_get wildcard_target ''/api/user'' [(''Origin'', ''https://evil.com'')] None 0 =
      (Fulfilled ?response, 1)"
    by (simp add: request_get_def wildcard_target_def)
  have h: "resp_headers ?response ''access-control-allow-origin'' = Some ''*''"
    by simp
  show ?thesis
    using cors_wildcard_finding [OF o g h, of new_DASTReporter]
    by (simp add: new_DASTReporter_def)
qed

lemma session_id_sensitive: "includes_js (toLowerCase ''session_id'') ''session''"
  by code_simp

text \<open>
  Claim C6. On a page whose URL starts with \<open>https://\<close>, a cookie named \<open>session_id\<close>
  that is neither secure nor HTTP-only and has \<open>sameSite\<close> \<open>None\<close> gets exactly one finding,
  of severity medium, whose evidence lists the three issues.
\<close>

theorem cookie_session_id_finding:
  assumes "startsWith page_url ''https://''"
    and "cookie_name c = ''session_id''"
    and "\<not> cookie_secure c" and "\<not> cookie_httpOnly c"
    and "cookie_sameSite c = Some SameSite_None"
  shows "check_cookie page_url c reporter =
     reporter\<lparr>findings := findings reporter @
        [\<lparr>severity = Medium,
          title = ''Insecure Cookie: session_id'',
          description = ''Cookie has security issues: Missing Secure flag, Missing HttpOnly flag on sensitive cookie, Missing or lax SameSite attribute'',
          url = page_url,
          payload = None,
          evidence = Some ''Missing Secure flag; Missing HttpOnly flag on sensitive cookie; Missing or lax SameSite attribute'',
          cwe = Some ''CWE-614'',
          owasp = Some ''A05:2021 - Security Misconfiguration'',
          recommendation = ''Set Secure, HttpOnly, and SameSite=Strict/Lax flags on cookies''\<rparr>]\<rparr>"
proof -
  have "cookie_issues page_url c =
      [''Missing Secure flag'', ''Missing HttpOnly flag on sensitive cookie'',
       ''Missing or lax SameSite attribute'']"
    using assms session_id_sensitive by (simp add: cookie_issues_def)
  then show ?thesis
    using assms(2) by (simp add: check_cookie_def addFinding_def)
qed

theorem cookie_session_id_finding_witness:
  "check_cookie_security_flags https_browser (0, new_DASTReporter) =
     (Fulfilled (), 1, \<lparr>findings =
        [\<lparr>severity = Medium,
          title = ''Insecure Cookie: session_id'',
          description = ''Cookie has security issues: Missing Secure flag, Missing HttpOnly flag on sensitive cookie, Missing or lax SameSite attribute'',
          url = ''https://target.example/'',
          payload = None,
          evidence = Some ''Missing Secure flag; Missing HttpOnly flag on sensitive cookie; Missing or lax SameSite attribute'',
          cwe = Some ''CWE-614'',
          owasp = Some ''A05:2021 - Security Misconfiguration'',
          recommendation = ''Set Secure, HttpOnly, and SameSite=Strict/Lax flags on cookies''\<rparr>]\<rparr>)"
proof -
  have u: "startsWith ''https://target.example/'' ''https://''" by simp
  have n: "cookie_name session_cookie = ''session_id''"
    and f: "\<not> cookie_secure session_cookie" "\<not> cookie_httpOnly session_cookie"
    and s: "cookie_sameSite session_cookie = Some SameSite_None"
    by (simp_all add: session_cookie_def)
  show ?thesis
    using cookie_session_id_finding [OF u n f s, of new_DASTReporter]
    by (simp add: check_cookie_security_flags_def https_browser_def new_DASTReporter_def)
qed






lemma check_file_url_rejected:
  "request_get api fileUrl [] (Some 5000) w = (Rejected, w') \<Longrightarrow>
   check_file_url api endpoint file fileUrl (w, reporter) = (w', reporter)"
  by (simp add: check_file_url_def)

lemma cors_rejected:
  "request_get api endpoint [(''Origin'', origin)] None w = (Rejected, w') \<Longrightarrow>
   cors_attempt api endpoint origin (w, reporter) = (w', reporter)"
  by (simp add: cors_attempt_def)




text \<open>
  The upload probe looks for the uploaded file with further requests, each in a \<open>try\<close> of
  its own (\<open>check_file_url_rejected\<close>): a rejected one leaves the reporter as it was at
  that point and the attempt goes on to the next candidate URL, and then to its report
  that the upload itself was accepted. Here the upload is accepted and the three
  look-ups are rejected.
\<close>

lemma check_file_url_example:
  "upload_attempt upload_only_target fixed_random ''/upload'' shell_php (0, new_DASTReporter) =
     (4, \<lparr>findings =
        [\<lparr>severity = High,
          title = ''Potential Unrestricted File Upload'',
          description = ''Server accepted potentially dangerous file '' @ [CHR 0x22] @ ''shell.php'' @ [CHR 0x22],
          url = ''/upload'',
          payload = None,
          evidence = Some ''Response status: 200'',
          cwe = Some ''CWE-434'',
          owasp = Some ''A01:2021 - Broken Access Control'',
          recommendation = ''Implement strict file type validation and content inspection''\<rparr>]\<rparr>)"
  by code_simp

end
